theory Spec2Isabelle
  imports Complex_Main "HOL-Library.Word" "HOL-Library.Sublist"
begin

section \<open>The filesystem miner of tracker-miner-fs.c\<close>

text \<open>
  The development embeds the controller of \<^verbatim>\<open>src/libtracker-miner/tracker-miner-fs.c\<close>:
  its four work queues, the processing pool, the queue handler, the crawl hook, the
  monitor callbacks and the public operations on directories and on the throttle.

  The controller runs on one GLib main loop. Each callback of the source is a function
  from the controller's state to its new state; what the callback reads from outside the
  controller (the store's answers, the filesystem, the signal handlers of the subclass,
  the clock) is a value of the record \<open>env\<close> that the callback receives. Logging and the
  commit requests sent to the store change nothing the controller reads back, and are
  left out.
\<close>

subsection \<open>Files and GIO's comparisons\<close>

text \<open>
  A \<^verbatim>\<open>GFile\<close> is identified by its URI, the byte string \<^verbatim>\<open>g_file_get_uri\<close> returns.
  \<^verbatim>\<open>g_file_equal\<close> compares the identifiers. \<^verbatim>\<open>g_file_has_prefix (file, prefix)\<close> holds,
  as GIO documents it, when the path of \<^verbatim>\<open>prefix\<close> followed by a separator starts the path
  of \<^verbatim>\<open>file\<close>: only whole path elements match, and a file is no prefix of itself.
  Identifiers are written without a separator at their end.
\<close>

type_synonym GFile = string

definition g_file_get_uri :: "GFile \<Rightarrow> string" where
  "g_file_get_uri f = f"

definition g_file_equal :: "GFile \<Rightarrow> GFile \<Rightarrow> bool" where
  "g_file_equal a b = (a = b)"

definition g_file_has_prefix :: "GFile \<Rightarrow> GFile \<Rightarrow> bool" where
  "g_file_has_prefix f p = prefix (p @ ''/'') f"

definition g_str_has_prefix :: "string \<Rightarrow> string \<Rightarrow> bool" where
  "g_str_has_prefix s p = prefix p s"

definition g_str_has_suffix :: "string \<Rightarrow> string \<Rightarrow> bool" where
  "g_str_has_suffix s x = suffix x s"

subsection \<open>The structures of the source\<close>

record ItemMovedData =
  imd_file :: GFile
  imd_source_file :: GFile

record DirectoryData =
  dd_file :: GFile
  dd_recurse :: bool

text \<open>
  An entry of the processing pool. \<open>pd_cancellable\<close> is \<open>None\<close> for the source's
  \<^verbatim>\<open>NULL\<close> and \<open>Some c\<close> for a \<^verbatim>\<open>GCancellable\<close> whose cancelled flag is \<open>c\<close>;
  \<open>pd_builder\<close> is \<open>None\<close> for \<^verbatim>\<open>NULL\<close> and the text of the builder otherwise.
  Entries are compared by value: two entries equal in every field are interchangeable.
\<close>

record ProcessData =
  pd_file :: GFile
  pd_cancellable :: "bool option"
  pd_builder :: "string option"

record RecursiveMoveData =
  level :: int
  sparql :: string
  source_uri :: string
  uri :: string

datatype queue = QUEUE_NONE | QUEUE_CREATED | QUEUE_UPDATED | QUEUE_DELETED | QUEUE_MOVED

text \<open>
  A source of the main loop: an idle hook or a timer of some milliseconds, with the
  callback it runs. A source id of the controller is modelled by the source it names:
  \<open>None\<close> is the id 0 (nothing installed).
\<close>

datatype callback = item_queue_handlers_cb_func | crawl_directories_cb_func

datatype source = IdleSource callback | TimeoutSource nat callback

datatype crawler_call =
  CrawlerStart GFile bool | CrawlerStop | CrawlerPause | CrawlerResume

text \<open>
  The private structure of the controller, with the two properties of the base class it
  writes (\<open>progress\<close>, \<open>status\<close>), the static \<open>time_last\<close> of the queue handler, and
  what the controller has sent out so far: the files \<^verbatim>\<open>::process-file\<close> was emitted for,
  the batch updates handed to the store with their pool entry, the statistics of each
  \<^verbatim>\<open>::finished\<close> emission, and the calls made on the crawler.
  Lists of the source have fewer than \<open>2^32\<close> elements; the statistics are
  \<^verbatim>\<open>guint\<close> counters and wrap around.
\<close>

record TrackerMinerFS =
  items_created :: "GFile list"
  items_updated :: "GFile list"
  items_deleted :: "GFile list"
  items_moved :: "ItemMovedData list"
  directories :: "DirectoryData list"
  current_directory :: "DirectoryData option"
  timer :: bool
  crawl_directories_id :: "source option"
  item_queues_handler_id :: "source option"
  throttle :: real
  processing_pool :: "ProcessData list"
  pool_limit :: nat
  been_started :: bool
  been_crawled :: bool
  shown_totals :: bool
  is_paused :: bool
  is_crawling :: bool
  total_directories_found :: "32 word"
  total_directories_ignored :: "32 word"
  total_files_found :: "32 word"
  total_files_ignored :: "32 word"
  directories_found :: "32 word"
  directories_ignored :: "32 word"
  files_found :: "32 word"
  files_ignored :: "32 word"
  progress :: real
  status :: string
  time_last :: int
  process_file_emitted :: "GFile list"
  batch_updates :: "(string \<times> ProcessData) list"
  finished_emitted :: "(32 word \<times> 32 word \<times> 32 word \<times> 32 word) list"
  crawler_calls :: "crawler_call list"

text \<open>
  What a callback reads from outside the controller.
  \<open>query_exists f\<close> is the answer of \<^verbatim>\<open>item_query_exists\<close>: the store returned exactly
  one row for \<open>f\<close>. \<open>query_children u\<close> is the result of the lookup of the resources
  whose \<^verbatim>\<open>nfo:belongsToContainer\<close> is \<open>u\<close>: \<open>None\<close> when the lookup failed or
  returned no array. \<open>file_display_name f\<close> is the display name \<^verbatim>\<open>g_file_query_info\<close>
  gives, \<open>None\<close> when the file cannot be queried. \<open>check_file\<close>, \<open>check_directory\<close>
  and \<open>process_file\<close> are the accumulated results of the signals of the same names.
  \<open>MAX_TIMEOUT_INTERVAL\<close> is the macro of that name, which this file uses and does not
  define: a number of milliseconds.
\<close>

record env =
  query_exists :: "GFile \<Rightarrow> bool"
  query_children :: "string \<Rightarrow> string list option"
  file_display_name :: "GFile \<Rightarrow> string option"
  g_strescape :: "string \<Rightarrow> string"
  tracker_file_is_locked :: "GFile \<Rightarrow> bool"
  check_file :: "GFile \<Rightarrow> bool"
  check_directory :: "GFile \<Rightarrow> bool"
  process_file :: "GFile \<Rightarrow> bool"
  tracker_crawler_start :: "GFile \<Rightarrow> bool \<Rightarrow> bool"
  current_time :: int
  MAX_TIMEOUT_INTERVAL :: nat

subsection \<open>The pool\<close>

definition process_data_new :: "GFile \<Rightarrow> bool option \<Rightarrow> string option \<Rightarrow> ProcessData" where
  "process_data_new f cancellable builder =
     \<lparr>pd_file = f, pd_cancellable = cancellable, pd_builder = builder\<rparr>"

definition process_data_find :: "TrackerMinerFS \<Rightarrow> GFile \<Rightarrow> ProcessData option" where
  "process_data_find fs f = find (\<lambda>d. g_file_equal (pd_file d) f) (processing_pool fs)"

subsection \<open>Taking the next item\<close>

definition item_queue_get_next_file ::
  "TrackerMinerFS \<Rightarrow> queue \<times> GFile option \<times> GFile option \<times> TrackerMinerFS" where
  "item_queue_get_next_file fs =
     (case items_deleted fs of
        f # rest \<Rightarrow> (QUEUE_DELETED, Some f, None, fs\<lparr>items_deleted := rest\<rparr>)
      | [] \<Rightarrow>
     (case items_created fs of
        f # rest \<Rightarrow> (QUEUE_CREATED, Some f, None, fs\<lparr>items_created := rest\<rparr>)
      | [] \<Rightarrow>
     (case items_updated fs of
        f # rest \<Rightarrow> (QUEUE_UPDATED, Some f, None, fs\<lparr>items_updated := rest\<rparr>)
      | [] \<Rightarrow>
     (case items_moved fs of
        d # rest \<Rightarrow>
          (QUEUE_MOVED, Some (imd_file d), Some (imd_source_file d), fs\<lparr>items_moved := rest\<rparr>)
      | [] \<Rightarrow> (QUEUE_NONE, None, None, fs)))))"

subsection \<open>Progress\<close>

text \<open>
  The lengths and the totals are \<^verbatim>\<open>guint\<close> values, added with wrap-around; the quotient
  is the exact quotient of the two numbers, which the source computes in double precision.
\<close>

definition item_queue_get_progress :: "TrackerMinerFS \<Rightarrow> real" where
  "item_queue_get_progress fs =
     (let items_to_process :: 32 word =
            of_nat (length (items_deleted fs)) + of_nat (length (items_created fs)) +
            of_nat (length (items_updated fs)) + of_nat (length (items_moved fs));
          items_total :: 32 word = total_directories_found fs + total_files_found fs
      in if items_to_process = 0 \<and> items_total > 0 then 0
         else if items_total = 0 \<or> items_to_process > items_total then 1
         else real (unat (items_total - items_to_process)) / real (unat items_total))"

subsection \<open>Finishing\<close>

definition process_print_stats :: "TrackerMinerFS \<Rightarrow> TrackerMinerFS" where
  "process_print_stats fs = (if \<not> shown_totals fs then fs\<lparr>shown_totals := True\<rparr> else fs)"

definition process_stop :: "TrackerMinerFS \<Rightarrow> TrackerMinerFS" where
  "process_stop fs0 =
     (let fs = process_print_stats fs0;
          fs = fs\<lparr>progress := 1, status := ''Idle''\<rparr>;
          fs = fs\<lparr>finished_emitted := finished_emitted fs @
                 [(total_directories_found fs, total_directories_ignored fs,
                   total_files_found fs, total_files_ignored fs)]\<rparr>;
          fs = fs\<lparr>timer := False\<rparr>
      in fs\<lparr>total_directories_found := 0, total_directories_ignored := 0,
             total_files_found := 0, total_files_ignored := 0,
             been_crawled := True\<rparr>)"

subsection \<open>Scheduling\<close>

text \<open>
  \<open>tracker_idle_add\<close> is the \<^verbatim>\<open>_tracker_idle_add\<close> of the source. The product of the
  macro and the throttle is converted to \<^verbatim>\<open>guint\<close>, which drops the fraction; the
  throttle is between 0 and 1 and the product below \<open>2^32\<close>. The throttle, a double in
  the source, is a real number here.
\<close>

definition tracker_idle_add :: "env \<Rightarrow> TrackerMinerFS \<Rightarrow> callback \<Rightarrow> source" where
  "tracker_idle_add e fs func =
     (let interval = nat \<lfloor>real (MAX_TIMEOUT_INTERVAL e) * throttle fs\<rfloor>
      in if interval = 0 then IdleSource func else TimeoutSource interval func)"

definition item_queue_handlers_set_up :: "env \<Rightarrow> TrackerMinerFS \<Rightarrow> TrackerMinerFS" where
  "item_queue_handlers_set_up e fs =
     (if item_queues_handler_id fs \<noteq> None then fs
      else if is_paused fs then fs
      else if length (processing_pool fs) \<ge> pool_limit fs then fs
      else
        (let fs1 = (if status fs \<noteq> ''Processing files''
                    then fs\<lparr>status := ''Processing files''\<rparr> else fs)
         in fs1\<lparr>item_queues_handler_id :=
                  Some (tracker_idle_add e fs1 item_queue_handlers_cb_func)\<rparr>))"

subsection \<open>Completion of a store update\<close>

text \<open>
  Whether the update failed or not decides a log line and a commit request only; the
  entry leaves the pool and the queue handler is set up in both cases.
\<close>

definition sparql_update_cb :: "env \<Rightarrow> TrackerMinerFS \<Rightarrow> ProcessData \<Rightarrow> TrackerMinerFS" where
  "sparql_update_cb e fs data =
     item_queue_handlers_set_up e
       (fs\<lparr>processing_pool := remove1 data (processing_pool fs)\<rparr>)"

subsection \<open>Processing one item\<close>

text \<open>
  Each of the three operations returns the flag the queue handler keeps running on,
  with the new state. \<^verbatim>\<open>item_query_exists\<close> and the move run a nested main loop until
  the store has answered; the callbacks that could run inside it are not interleaved here.
  The handlers of \<^verbatim>\<open>::process-file\<close> are taken to return their answer without calling
  \<^verbatim>\<open>tracker_miner_fs_notify_file\<close> first; the end of an extraction is not part of
  the model.
\<close>

definition item_add_or_update :: "env \<Rightarrow> TrackerMinerFS \<Rightarrow> GFile \<Rightarrow> bool \<times> TrackerMinerFS" where
  "item_add_or_update e fs f =
     (let data = process_data_new f (Some False) (Some []);
          fs1 = fs\<lparr>processing_pool := data # processing_pool fs\<rparr>;
          fs2 = fs1\<lparr>process_file_emitted := process_file_emitted fs1 @ [f]\<rparr>;
          processing = process_file e f
      in if \<not> processing then
           (case process_data_find fs2 f of
              None \<Rightarrow> (True, fs2)
            | Some d \<Rightarrow> (True, fs2\<lparr>processing_pool := remove1 d (processing_pool fs2)\<rparr>))
         else if length (processing_pool fs2) \<ge> pool_limit fs2 then (False, fs2)
         else (True, fs2))"

definition item_query_exists :: "env \<Rightarrow> GFile \<Rightarrow> bool" where
  "item_query_exists e f = query_exists e f"

definition item_remove :: "env \<Rightarrow> TrackerMinerFS \<Rightarrow> GFile \<Rightarrow> bool \<times> TrackerMinerFS" where
  "item_remove e fs f =
     (let u = g_file_get_uri f
      in if \<not> item_query_exists e f then (True, fs)
         else
           (let slash_uri = (if \<not> g_str_has_suffix u ''/'' then u @ ''/'' else u);
                text1 = ''DELETE FROM <'' @ u @ ''> { ?u a rdfs:Resource } '' @
                        ''WHERE { ?u nfo:belongsToContainer ?p . FILTER (fn:starts-with (?p, '' @
                        [CHR 0x22] @ slash_uri @ [CHR 0x22] @ '')) } '';
                text2 = text1 @ ''DELETE FROM <'' @ u @ ''> { <'' @ u @ ''> a rdfs:Resource }'';
                data = process_data_new f None None;
                fs1 = fs\<lparr>processing_pool := data # processing_pool fs\<rparr>
            in (False, fs1\<lparr>batch_updates := batch_updates fs1 @ [(text2, data)]\<rparr>)))"

subsection \<open>The recursive rewrite of a move\<close>

text \<open>
  \<^verbatim>\<open>item_update_uri_recursively\<close> counts one more outstanding lookup, appends the
  statement of the pair and sends the lookup of the children of \<open>src\<close>. The lookups sent
  and not yet answered are the second component of the state; the store answers them in
  the order they were sent.
\<close>

definition item_update_uri_recursively ::
  "RecursiveMoveData \<times> string list \<Rightarrow> string \<Rightarrow> string \<Rightarrow> RecursiveMoveData \<times> string list" where
  "item_update_uri_recursively st src u =
     (case st of (move_data, pending) \<Rightarrow>
        (move_data\<lparr>level := level move_data + 1,
                   sparql := sparql move_data @ '' <'' @ src @ ''> tracker:uri <'' @ u @ ''> .''\<rparr>,
         pending @ [src]))"

definition item_update_uri_recursively_cb ::
  "RecursiveMoveData \<times> string list \<Rightarrow> string list option \<Rightarrow> RecursiveMoveData \<times> string list" where
  "item_update_uri_recursively_cb st query_results =
     (case
        (case query_results of
           None \<Rightarrow> st
         | Some rows \<Rightarrow>
             foldl (\<lambda>st1 child_source_uri.
                      if \<not> g_str_has_prefix child_source_uri (source_uri (fst st1)) then st1
                      else item_update_uri_recursively st1 child_source_uri
                             (uri (fst st1) @ drop (length (source_uri (fst st1))) child_source_uri))
                   st rows)
      of (data, pending) \<Rightarrow> (data\<lparr>level := level data - 1\<rparr>, pending))"

text \<open>
  The nested main loop of \<^verbatim>\<open>item_move\<close>: it delivers the answers one by one and
  returns when a callback has brought the count of outstanding lookups to zero. \<open>None\<close>
  is a loop that does not return: no answer is outstanding, the assertion on the count
  fails, or the lookups never end.
\<close>

partial_function (option) g_main_loop_run ::
  "env \<Rightarrow> RecursiveMoveData \<times> string list \<Rightarrow> RecursiveMoveData option" where
  "g_main_loop_run e st =
     (case snd st of
        [] \<Rightarrow> None
      | src # rest \<Rightarrow>
          (case item_update_uri_recursively_cb (fst st, rest) (query_children e src) of
             (data, pending) \<Rightarrow>
               if level data < 0 then None
               else if level data = 0 then Some data
               else g_main_loop_run e (data, pending)))"

definition item_move ::
  "env \<Rightarrow> TrackerMinerFS \<Rightarrow> GFile \<Rightarrow> GFile \<Rightarrow> (bool \<times> TrackerMinerFS) option" where
  "item_move e fs f source_file =
     (let u = g_file_get_uri f; src = g_file_get_uri source_file
      in if \<not> item_query_exists e source_file then Some (item_add_or_update e fs f)
         else
           (case file_display_name e f of
              None \<Rightarrow> Some (item_remove e fs source_file)
            | Some display_name \<Rightarrow>
                (let text1 = ''DELETE FROM <'' @ src @ ''> { <'' @ src @ ''> nfo:fileName ?o } WHERE { <'' @
                             src @ ''> nfo:fileName ?o }'';
                     text2 = text1 @ '' INSERT INTO <'' @ u @ ''> {'';
                     escaped_filename = g_strescape e display_name;
                     text3 = text2 @ '' <'' @ src @ ''> nfo:fileName '' @ [CHR 0x22] @
                             escaped_filename @ [CHR 0x22] @ '' .'';
                     move_data = \<lparr>level = 0, sparql = text3, source_uri = src, uri = u\<rparr>
                 in case g_main_loop_run e (item_update_uri_recursively (move_data, []) src u) of
                      None \<Rightarrow> None
                    | Some md \<Rightarrow>
                        (let text4 = sparql md @ '' }'';
                             data = process_data_new f None None;
                             fs1 = fs\<lparr>processing_pool := data # processing_pool fs\<rparr>
                         in Some (True, fs1\<lparr>batch_updates := batch_updates fs1 @ [(text4, data)]\<rparr>)))))"

subsection \<open>The queue handler\<close>

text \<open>
  One run of the handler: the boolean is what it returns to the main loop, which keeps
  the source on \<open>True\<close> and removes it on \<open>False\<close>. A switch that reaches no case of the
  source does not return.
\<close>

definition item_queue_handlers_cb ::
  "env \<Rightarrow> TrackerMinerFS \<Rightarrow> (bool \<times> TrackerMinerFS) option" where
  "item_queue_handlers_cb e fs0 =
     (case item_queue_get_next_file fs0 of (queue, file_opt, source_opt, fs) \<Rightarrow>
        if (case file_opt of None \<Rightarrow> False | Some f \<Rightarrow> tracker_file_is_locked e f)
        then Some (True, fs)
        else
          (let fs1 = (if \<not> timer fs then fs\<lparr>timer := True\<rparr> else fs);
               fs2 = (if current_time e - time_last fs1 \<ge> 1
                      then fs1\<lparr>time_last := current_time e,
                               progress := item_queue_get_progress fs1\<rparr>
                      else fs1);
               handled =
                 (case (queue, file_opt, source_opt) of
                    (QUEUE_NONE, _, _) \<Rightarrow>
                      Some (False,
                            if \<not> is_crawling fs2 \<and> processing_pool fs2 = []
                            then process_stop fs2 else fs2)
                  | (QUEUE_MOVED, Some f, Some s) \<Rightarrow> item_move e fs2 f s
                  | (QUEUE_DELETED, Some f, _) \<Rightarrow> Some (item_remove e fs2 f)
                  | (QUEUE_CREATED, Some f, _) \<Rightarrow> Some (item_add_or_update e fs2 f)
                  | (QUEUE_UPDATED, Some f, _) \<Rightarrow> Some (item_add_or_update e fs2 f)
                  | _ \<Rightarrow> None)
           in case handled of
                None \<Rightarrow> None
              | Some (keep_processing, fs3) \<Rightarrow>
                  if \<not> keep_processing
                  then Some (False, fs3\<lparr>item_queues_handler_id := None\<rparr>)
                  else Some (True, fs3)))"

subsection \<open>The crawl hook and the directories\<close>

text \<open>
  The status line names the directory by its path; the model writes the identifier there.
\<close>

definition crawl_directories_start :: "env \<Rightarrow> TrackerMinerFS \<Rightarrow> TrackerMinerFS" where
  "crawl_directories_start e fs =
     (if crawl_directories_id fs \<noteq> None then fs
      else if \<not> been_started fs then fs
      else
        (let fs1 = (if \<not> timer fs then fs\<lparr>timer := True\<rparr> else fs);
             fs2 = fs1\<lparr>directories_found := 0, directories_ignored := 0,
                       files_found := 0, files_ignored := 0\<rparr>
         in fs2\<lparr>crawl_directories_id :=
                  Some (tracker_idle_add e fs2 crawl_directories_cb_func)\<rparr>))"

definition crawl_directories_stop :: "TrackerMinerFS \<Rightarrow> TrackerMinerFS" where
  "crawl_directories_stop fs =
     (if crawl_directories_id fs = None then fs
      else
        (let fs1 = (if current_directory fs \<noteq> None
                    then fs\<lparr>crawler_calls := crawler_calls fs @ [CrawlerStop]\<rparr> else fs)
         in if crawl_directories_id fs1 \<noteq> None then fs1\<lparr>crawl_directories_id := None\<rparr>
            else fs1))"

definition crawl_directories_cb :: "env \<Rightarrow> TrackerMinerFS \<Rightarrow> bool \<times> TrackerMinerFS" where
  "crawl_directories_cb e fs =
     (if current_directory fs \<noteq> None then (False, fs\<lparr>crawl_directories_id := None\<rparr>)
      else
        (case directories fs of
           [] \<Rightarrow>
             (let fs1 = item_queue_handlers_set_up e fs;
                  fs2 = crawl_directories_stop fs1
              in (False, fs2\<lparr>crawl_directories_id := None\<rparr>))
         | d # rest \<Rightarrow>
             (let fs1 = fs\<lparr>current_directory := Some d, directories := remove1 d (directories fs)\<rparr>;
                  str = (if dd_recurse d
                         then ''Crawling recursively directory '' @ [CHR 0x27] @ dd_file d @ [CHR 0x27]
                         else ''Crawling single directory '' @ [CHR 0x27] @ dd_file d @ [CHR 0x27]);
                  fs2 = fs1\<lparr>status := str\<rparr>;
                  fs3 = fs2\<lparr>crawler_calls :=
                              crawler_calls fs2 @ [CrawlerStart (dd_file d) (dd_recurse d)]\<rparr>
              in if tracker_crawler_start e (dd_file d) (dd_recurse d)
                 then (False, fs3\<lparr>is_crawling := True, crawl_directories_id := None\<rparr>)
                 else (True, fs3\<lparr>current_directory := None\<rparr>))))"

definition directory_data_new :: "GFile \<Rightarrow> bool \<Rightarrow> DirectoryData" where
  "directory_data_new f recurse = \<lparr>dd_file = f, dd_recurse = recurse\<rparr>"

definition tracker_miner_fs_add_directory ::
  "env \<Rightarrow> TrackerMinerFS \<Rightarrow> GFile \<Rightarrow> bool \<Rightarrow> TrackerMinerFS" where
  "tracker_miner_fs_add_directory e fs f recurse =
     crawl_directories_start e
       (fs\<lparr>directories := directories fs @ [directory_data_new f recurse]\<rparr>)"

definition check_files_removal :: "GFile list \<Rightarrow> GFile \<Rightarrow> GFile list" where
  "check_files_removal q parent =
     filter (\<lambda>f. \<not> (g_file_equal f parent \<or> g_file_has_prefix f parent)) q"

text \<open>
  \<^verbatim>\<open>g_cancellable_cancel\<close> sets the flag of a cancellable and does nothing on \<^verbatim>\<open>NULL\<close>.
\<close>

definition g_cancellable_cancel :: "bool option \<Rightarrow> bool option" where
  "g_cancellable_cancel c = (case c of None \<Rightarrow> None | Some _ \<Rightarrow> Some True)"

definition tracker_miner_fs_remove_directory ::
  "TrackerMinerFS \<Rightarrow> GFile \<Rightarrow> bool \<times> TrackerMinerFS" where
  "tracker_miner_fs_remove_directory fs f =
     (let hit_current =
            (case current_directory fs of
               None \<Rightarrow> False
             | Some cd \<Rightarrow> g_file_equal f (dd_file cd) \<or> g_file_has_prefix f (dd_file cd));
          fs1 = (if hit_current then fs\<lparr>crawler_calls := crawler_calls fs @ [CrawlerStop]\<rparr> else fs);
          hit_dir = (\<lambda>d. g_file_equal f (dd_file d) \<or> g_file_has_prefix f (dd_file d));
          hit_dirs = list_ex hit_dir (directories fs1);
          fs2 = fs1\<lparr>directories := filter (\<lambda>d. \<not> hit_dir d) (directories fs1)\<rparr>;
          fs3 = fs2\<lparr>items_updated := check_files_removal (items_updated fs2) f\<rparr>;
          fs4 = fs3\<lparr>items_created := check_files_removal (items_created fs3) f\<rparr>;
          fs5 = fs4\<lparr>processing_pool :=
                      map (\<lambda>data.
                             if g_file_equal (pd_file data) f \<or> g_file_has_prefix (pd_file data) f
                             then data\<lparr>pd_cancellable := g_cancellable_cancel (pd_cancellable data)\<rparr>
                             else data)
                          (processing_pool fs4)\<rparr>
      in (hit_current \<or> hit_dirs, fs5))"

subsection \<open>The throttle\<close>

definition CLAMP :: "real \<Rightarrow> real \<Rightarrow> real \<Rightarrow> real" where
  "CLAMP x low high = (if x > high then high else if x < low then low else x)"

definition tracker_miner_fs_set_throttle :: "env \<Rightarrow> TrackerMinerFS \<Rightarrow> real \<Rightarrow> TrackerMinerFS" where
  "tracker_miner_fs_set_throttle e fs thr =
     (let t = CLAMP thr 0 1
      in if throttle fs = t then fs
         else
           (let fs1 = fs\<lparr>throttle := t\<rparr>;
                fs2 = (if item_queues_handler_id fs1 \<noteq> None
                       then fs1\<lparr>item_queues_handler_id :=
                                  Some (tracker_idle_add e fs1 item_queue_handlers_cb_func)\<rparr>
                       else fs1)
            in if crawl_directories_id fs2 \<noteq> None
               then fs2\<lparr>crawl_directories_id :=
                          Some (tracker_idle_add e fs2 crawl_directories_cb_func)\<rparr>
               else fs2))"

definition tracker_miner_fs_get_throttle :: "TrackerMinerFS \<Rightarrow> real" where
  "tracker_miner_fs_get_throttle fs = throttle fs"

subsection \<open>The monitor's events\<close>

definition should_check_file :: "env \<Rightarrow> GFile \<Rightarrow> bool \<Rightarrow> bool" where
  "should_check_file e f is_dir = (if is_dir then check_directory e f else check_file e f)"

definition monitor_item_created_cb ::
  "env \<Rightarrow> TrackerMinerFS \<Rightarrow> GFile \<Rightarrow> bool \<Rightarrow> TrackerMinerFS" where
  "monitor_item_created_cb e fs f is_directory =
     (let should_process = should_check_file e f is_directory
      in if should_process then
           (if is_directory then tracker_miner_fs_add_directory e fs f True
            else item_queue_handlers_set_up e (fs\<lparr>items_created := items_created fs @ [f]\<rparr>))
         else fs)"

definition monitor_item_updated_cb ::
  "env \<Rightarrow> TrackerMinerFS \<Rightarrow> GFile \<Rightarrow> bool \<Rightarrow> TrackerMinerFS" where
  "monitor_item_updated_cb e fs f is_directory =
     (let should_process = should_check_file e f is_directory
      in if should_process
         then item_queue_handlers_set_up e (fs\<lparr>items_updated := items_updated fs @ [f]\<rparr>)
         else fs)"

definition monitor_item_deleted_cb ::
  "env \<Rightarrow> TrackerMinerFS \<Rightarrow> GFile \<Rightarrow> bool \<Rightarrow> TrackerMinerFS" where
  "monitor_item_deleted_cb e fs f is_directory =
     (let should_process = should_check_file e f is_directory
      in if should_process
         then item_queue_handlers_set_up e (fs\<lparr>items_deleted := items_deleted fs @ [f]\<rparr>)
         else fs)"

definition item_moved_data_new :: "GFile \<Rightarrow> GFile \<Rightarrow> ItemMovedData" where
  "item_moved_data_new f source_file = \<lparr>imd_file = f, imd_source_file = source_file\<rparr>"

definition monitor_item_moved_cb ::
  "env \<Rightarrow> TrackerMinerFS \<Rightarrow> GFile \<Rightarrow> GFile \<Rightarrow> bool \<Rightarrow> bool \<Rightarrow> TrackerMinerFS" where
  "monitor_item_moved_cb e fs f other_file is_directory is_source_monitored =
     (if \<not> is_source_monitored then
        (if is_directory then tracker_miner_fs_add_directory e fs other_file True else fs)
      else
        (let source_stored = item_query_exists e f;
             should_process_other = should_check_file e other_file is_directory
         in if \<not> source_stored \<and> \<not> should_process_other then fs
            else if \<not> source_stored then
              (if \<not> is_directory
               then item_queue_handlers_set_up e
                      (fs\<lparr>items_created := items_created fs @ [other_file]\<rparr>)
               else tracker_miner_fs_add_directory e fs other_file True)
            else if \<not> should_process_other
            then item_queue_handlers_set_up e (fs\<lparr>items_deleted := items_deleted fs @ [f]\<rparr>)
            else item_queue_handlers_set_up e
                   (fs\<lparr>items_moved := items_moved fs @ [item_moved_data_new other_file f]\<rparr>)))"

subsection \<open>The end of a crawl\<close>

text \<open>
  Each found file comes with the mark \<^verbatim>\<open>tracker-ignore-file\<close> the directory check may
  have set on it.
\<close>

definition crawler_finished_cb ::
  "env \<Rightarrow> TrackerMinerFS \<Rightarrow> (GFile \<times> bool) list \<Rightarrow> bool \<Rightarrow>
   32 word \<Rightarrow> 32 word \<Rightarrow> 32 word \<Rightarrow> 32 word \<Rightarrow> TrackerMinerFS" where
  "crawler_finished_cb e fs found was_interrupted dirs_found dirs_ignored fls_found fls_ignored =
     (let fs1 = fs\<lparr>items_created :=
                     items_created fs @ map fst (filter (\<lambda>x. \<not> snd x) found)\<rparr>;
          fs2 = fs1\<lparr>is_crawling := False\<rparr>;
          fs3 = fs2\<lparr>directories_found := directories_found fs2 + dirs_found,
                    directories_ignored := directories_ignored fs2 + dirs_ignored,
                    files_found := files_found fs2 + fls_found,
                    files_ignored := files_ignored fs2 + fls_ignored\<rparr>;
          fs4 = fs3\<lparr>total_directories_found := total_directories_found fs3 + dirs_found,
                    total_directories_ignored := total_directories_ignored fs3 + dirs_ignored,
                    total_files_found := total_files_found fs3 + fls_found,
                    total_files_ignored := total_files_ignored fs3 + fls_ignored\<rparr>;
          fs5 = fs4\<lparr>current_directory := None\<rparr>
      in crawl_directories_start e fs5)"

subsection \<open>Start, stop, pause, resume\<close>

text \<open>
  The state after \<^verbatim>\<open>tracker_miner_fs_init\<close> and the construction property
  \<^verbatim>\<open>process-pool-limit\<close>: zeroed private data and four empty queues. The initial values
  of the two properties of the base class are taken as zero and the empty text.
\<close>

definition tracker_miner_fs_init :: "nat \<Rightarrow> TrackerMinerFS" where
  "tracker_miner_fs_init limit =
     \<lparr>items_created = [], items_updated = [], items_deleted = [], items_moved = [],
      directories = [], current_directory = None, timer = False,
      crawl_directories_id = None, item_queues_handler_id = None, throttle = 0,
      processing_pool = [], pool_limit = limit,
      been_started = False, been_crawled = False, shown_totals = False,
      is_paused = False, is_crawling = False,
      total_directories_found = 0, total_directories_ignored = 0,
      total_files_found = 0, total_files_ignored = 0,
      directories_found = 0, directories_ignored = 0, files_found = 0, files_ignored = 0,
      progress = 0, status = [], time_last = 0,
      process_file_emitted = [], batch_updates = [], finished_emitted = [],
      crawler_calls = []\<rparr>"

definition miner_started :: "env \<Rightarrow> TrackerMinerFS \<Rightarrow> TrackerMinerFS" where
  "miner_started e fs =
     crawl_directories_start e
       (fs\<lparr>been_started := True, progress := 0, status := ''Initializing''\<rparr>)"

definition miner_stopped :: "TrackerMinerFS \<Rightarrow> TrackerMinerFS" where
  "miner_stopped fs = fs\<lparr>progress := 1, status := ''Idle''\<rparr>"

definition miner_paused :: "TrackerMinerFS \<Rightarrow> TrackerMinerFS" where
  "miner_paused fs =
     (let fs1 = fs\<lparr>is_paused := True, crawler_calls := crawler_calls fs @ [CrawlerPause]\<rparr>
      in if item_queues_handler_id fs1 \<noteq> None then fs1\<lparr>item_queues_handler_id := None\<rparr>
         else fs1)"

definition miner_resumed :: "env \<Rightarrow> TrackerMinerFS \<Rightarrow> TrackerMinerFS" where
  "miner_resumed e fs =
     (let fs1 = fs\<lparr>is_paused := False, crawler_calls := crawler_calls fs @ [CrawlerResume]\<rparr>
      in if length (items_deleted fs1) > 0 \<or> length (items_created fs1) > 0 \<or>
            length (items_updated fs1) > 0 \<or> length (items_moved fs1) > 0
         then item_queue_handlers_set_up e fs1 else fs1)"

subsection \<open>The main loop\<close>

text \<open>
  What the main loop and the callers of the public operations can do to the controller.
  The queue handler runs only while its source is installed, and so does the crawl hook;
  the crawler reports the end of a crawl only while one is running; a store update
  completes only for a pool entry that was submitted with one. \<open>fire\<close> is \<open>None\<close> when
  the event cannot happen in the state, or when its callback does not return.
\<close>

datatype event =
    Started | Stopped | Paused | Resumed
  | ItemCreated GFile bool
  | ItemUpdated GFile bool
  | ItemDeleted GFile bool
  | ItemMoved GFile GFile bool bool
  | QueueTick int
  | CrawlTick
  | CrawlerFinished "(GFile \<times> bool) list" bool "32 word" "32 word" "32 word" "32 word"
  | UpdateDone ProcessData
  | AddDirectory GFile bool
  | RemoveDirectory GFile
  | SetThrottle real

fun fire :: "env \<Rightarrow> TrackerMinerFS \<Rightarrow> event \<Rightarrow> TrackerMinerFS option" where
  "fire e fs Started = Some (miner_started e fs)"
| "fire e fs Stopped = Some (miner_stopped fs)"
| "fire e fs Paused = Some (miner_paused fs)"
| "fire e fs Resumed = Some (miner_resumed e fs)"
| "fire e fs (ItemCreated f d) = Some (monitor_item_created_cb e fs f d)"
| "fire e fs (ItemUpdated f d) = Some (monitor_item_updated_cb e fs f d)"
| "fire e fs (ItemDeleted f d) = Some (monitor_item_deleted_cb e fs f d)"
| "fire e fs (ItemMoved f other d m) = Some (monitor_item_moved_cb e fs f other d m)"
| "fire e fs (QueueTick now) =
     (if item_queues_handler_id fs = None then None
      else map_option snd (item_queue_handlers_cb (e\<lparr>current_time := now\<rparr>) fs))"
| "fire e fs CrawlTick =
     (if crawl_directories_id fs = None then None
      else Some (snd (crawl_directories_cb e fs)))"
| "fire e fs (CrawlerFinished found interrupted df di ff fi) =
     (if \<not> is_crawling fs then None
      else Some (crawler_finished_cb e fs found interrupted df di ff fi))"
| "fire e fs (UpdateDone data) =
     (if data \<in> set (processing_pool fs) \<and> data \<in> snd ` set (batch_updates fs)
      then Some (sparql_update_cb e fs data) else None)"
| "fire e fs (AddDirectory f recurse) = Some (tracker_miner_fs_add_directory e fs f recurse)"
| "fire e fs (RemoveDirectory f) = Some (snd (tracker_miner_fs_remove_directory fs f))"
| "fire e fs (SetThrottle thr) = Some (tracker_miner_fs_set_throttle e fs thr)"

fun run :: "env \<Rightarrow> TrackerMinerFS \<Rightarrow> event list \<Rightarrow> TrackerMinerFS option" where
  "run e fs [] = Some fs"
| "run e fs (ev # evs) = (case fire e fs ev of None \<Rightarrow> None | Some fs1 \<Rightarrow> run e fs1 evs)"

text \<open>
  An environment for the examples: an empty store, no locked file, every check passing,
  every file accepted by the extractor, and 10 ms for the macro.
\<close>

definition plain_env :: env where
  "plain_env =
     \<lparr>query_exists = (\<lambda>f. False), query_children = (\<lambda>u. Some []),
      file_display_name = (\<lambda>f. Some f), g_strescape = (\<lambda>s. s),
      tracker_file_is_locked = (\<lambda>f. False), check_file = (\<lambda>f. True),
      check_directory = (\<lambda>f. True), process_file = (\<lambda>f. True),
      tracker_crawler_start = (\<lambda>f r. True), current_time = 0,
      MAX_TIMEOUT_INTERVAL = 10\<rparr>"

text \<open>The four queues of a state, in the order they are drained.\<close>

definition queues ::
  "TrackerMinerFS \<Rightarrow> GFile list \<times> GFile list \<times> GFile list \<times> ItemMovedData list" where
  "queues fs = (items_deleted fs, items_created fs, items_updated fs, items_moved fs)"

text \<open>A state with one entry in each queue and the queue handler installed.\<close>

definition one_in_each_queue :: TrackerMinerFS where
  "one_in_each_queue =
     (tracker_miner_fs_init 1)
       \<lparr>items_created := [''file:///data/c''], items_updated := [''file:///data/u''],
        items_deleted := [''file:///data/d''],
        items_moved := [item_moved_data_new ''file:///data/n'' ''file:///data/m''],
        item_queues_handler_id := Some (IdleSource item_queue_handlers_cb_func)\<rparr>"

subsection \<open>Notions of the specification, and states for the examples\<close>

text \<open>
  The number of queue entries of a URI: its occurrences in the Created, Updated and
  Deleted queues, and the Moved entries that have it as source or as destination.
\<close>

definition uri_occurrences :: "TrackerMinerFS \<Rightarrow> GFile \<Rightarrow> nat" where
  "uri_occurrences fs u =
     count_list (items_created fs) u + count_list (items_updated fs) u +
     count_list (items_deleted fs) u +
     length (filter (\<lambda>d. imd_file d = u \<or> imd_source_file d = u) (items_moved fs))"

text \<open>The same environment with every file locked.\<close>

definition locked_env :: env where
  "locked_env = plain_env\<lparr>tracker_file_is_locked := (\<lambda>f. True)\<rparr>"

text \<open>The number of entries of the four queues together.\<close>

definition items_pending :: "TrackerMinerFS \<Rightarrow> nat" where
  "items_pending fs =
     length (items_deleted fs) + length (items_created fs) +
     length (items_updated fs) + length (items_moved fs)"



text \<open>A file is within a root when its URI equals the root's or has it as a prefix.\<close>

definition within_root :: "GFile \<Rightarrow> GFile \<Rightarrow> bool" where
  "within_root f r = (g_file_equal f r \<or> g_file_has_prefix f r)"

text \<open>
  A state with files of \<^verbatim>\<open>file:///data\<close> and of another directory in the Created and
  Updated queues, and an extraction and a store update in the pool.
\<close>

definition mixed_roots :: TrackerMinerFS where
  "mixed_roots =
     (tracker_miner_fs_init 2)
       \<lparr>items_created := [''file:///data/a'', ''file:///other/x'', ''file:///data/sub/b''],
        items_updated := [''file:///data'', ''file:///database''],
        items_deleted := [''file:///data/c''],
        processing_pool :=
          [process_data_new ''file:///data/e'' (Some False) (Some []),
           process_data_new ''file:///data/f'' None None,
           process_data_new ''file:///other/y'' (Some False) (Some [])]\<rparr>"

text \<open>The same environment with a store that knows every file.\<close>

definition stored_env :: env where
  "stored_env = plain_env\<lparr>query_exists := (\<lambda>f. True)\<rparr>"

text \<open>
  What the cycle of enqueueing and dispatching reads and writes: the queues, the pool and
  its limit, the pause flag, whether the queue handler is installed, the files
  \<^verbatim>\<open>::process-file\<close> was emitted for, and the pool entries of the store updates
  submitted so far.
\<close>

definition controller_view ::
  "TrackerMinerFS \<Rightarrow>
   (GFile list \<times> GFile list \<times> GFile list \<times> ItemMovedData list) \<times>
   ProcessData list \<times> nat \<times> bool \<times> bool \<times> GFile list \<times> ProcessData list" where
  "controller_view fs =
     (queues fs, processing_pool fs, pool_limit fs, is_paused fs,
      item_queues_handler_id fs \<noteq> None, process_file_emitted fs, map snd (batch_updates fs))"

subsection \<open>Notions for the rewrite of a move\<close>








section \<open>Properties\<close>

subsection \<open>The queues are touched by the dequeue only\<close>

lemma next_file_order:
  "item_queue_get_next_file fs =
     (if items_deleted fs \<noteq> [] then
        (QUEUE_DELETED, Some (hd (items_deleted fs)), None,
         fs\<lparr>items_deleted := tl (items_deleted fs)\<rparr>)
      else if items_created fs \<noteq> [] then
        (QUEUE_CREATED, Some (hd (items_created fs)), None,
         fs\<lparr>items_created := tl (items_created fs)\<rparr>)
      else if items_updated fs \<noteq> [] then
        (QUEUE_UPDATED, Some (hd (items_updated fs)), None,
         fs\<lparr>items_updated := tl (items_updated fs)\<rparr>)
      else if items_moved fs \<noteq> [] then
        (QUEUE_MOVED, Some (imd_file (hd (items_moved fs))),
         Some (imd_source_file (hd (items_moved fs))),
         fs\<lparr>items_moved := tl (items_moved fs)\<rparr>)
      else (QUEUE_NONE, None, None, fs))"
  by (simp add: item_queue_get_next_file_def split: list.splits)

lemma queues_set_up [simp]: "queues (item_queue_handlers_set_up e fs) = queues fs"
  by (simp add: queues_def item_queue_handlers_set_up_def Let_def)




lemma process_stop_queues [simp]:
  "items_deleted (process_stop fs) = items_deleted fs"
  "items_created (process_stop fs) = items_created fs"
  "items_updated (process_stop fs) = items_updated fs"
  "items_moved (process_stop fs) = items_moved fs"
  by (simp_all add: process_stop_def process_print_stats_def Let_def)


subsection \<open>Drain priority\<close>



subsection \<open>Enqueueing\<close>

text \<open>
  Claim C1, as stated, fails: the handlers of the monitor's events append and remove
  nothing. After an update event and two create events and a delete event for the same
  file, the file is once in the Updated queue, twice in the Created queue and once in
  the Deleted queue.
\<close>

theorem enqueue_no_dedup_counterexample:
  "map_option queues
     (run plain_env (tracker_miner_fs_init 1)
        [Started, ItemUpdated ''file:///data/a'' False, ItemCreated ''file:///data/a'' False,
         ItemCreated ''file:///data/a'' False, ItemDeleted ''file:///data/a'' False]) =
   Some ([''file:///data/a''], [''file:///data/a'', ''file:///data/a''],
         [''file:///data/a''], [])"
  by (simp add: queues_def monitor_item_created_cb_def monitor_item_updated_cb_def
        monitor_item_deleted_cb_def should_check_file_def item_queue_handlers_set_up_def
        miner_started_def crawl_directories_start_def tracker_idle_add_def
        plain_env_def tracker_miner_fs_init_def Let_def)

text \<open>
  Claim C1, amended. For an item that passes the check predicate, the created handler
  (for a file that is no directory) appends the file to the tail of the Created queue,
  the updated handler to the tail of the Updated queue and the deleted handler to the
  tail of the Deleted queue; each leaves the other three queues, and the entries already
  in its own queue, as they were. Each such event raises the number of queue entries of
  the file by one.
\<close>

theorem enqueue_appends:
  assumes "should_check_file e u d"
  shows "(\<not> d \<longrightarrow>
            queues (monitor_item_created_cb e fs u d) =
              (items_deleted fs, items_created fs @ [u], items_updated fs, items_moved fs) \<and>
            uri_occurrences (monitor_item_created_cb e fs u d) u = Suc (uri_occurrences fs u))
       \<and> queues (monitor_item_updated_cb e fs u d) =
              (items_deleted fs, items_created fs, items_updated fs @ [u], items_moved fs)
       \<and> uri_occurrences (monitor_item_updated_cb e fs u d) u = Suc (uri_occurrences fs u)
       \<and> queues (monitor_item_deleted_cb e fs u d) =
              (items_deleted fs @ [u], items_created fs, items_updated fs, items_moved fs)
       \<and> uri_occurrences (monitor_item_deleted_cb e fs u d) u = Suc (uri_occurrences fs u)"
proof -
  have occ: "uri_occurrences fs1 u =
      (case queues fs1 of (dq, cq, uq, mq) \<Rightarrow>
         count_list cq u + count_list uq u + count_list dq u +
         length (filter (\<lambda>d. imd_file d = u \<or> imd_source_file d = u) mq))" for fs1
    by (simp add: uri_occurrences_def queues_def)
  have c: "\<not> d \<Longrightarrow> queues (monitor_item_created_cb e fs u d) =
              (items_deleted fs, items_created fs @ [u], items_updated fs, items_moved fs)"
    using assms by (simp add: monitor_item_created_cb_def) (simp add: queues_def)
  have up: "queues (monitor_item_updated_cb e fs u d) =
              (items_deleted fs, items_created fs, items_updated fs @ [u], items_moved fs)"
    using assms by (simp add: monitor_item_updated_cb_def) (simp add: queues_def)
  have de: "queues (monitor_item_deleted_cb e fs u d) =
              (items_deleted fs @ [u], items_created fs, items_updated fs, items_moved fs)"
    using assms by (simp add: monitor_item_deleted_cb_def) (simp add: queues_def)
  show ?thesis
    using c up de
    by (simp add: occ) (simp add: queues_def)
qed

theorem enqueue_appends_witness:
  "should_check_file plain_env ''file:///data/a'' False \<and>
   queues (monitor_item_created_cb plain_env one_in_each_queue ''file:///data/a'' False) =
     ([''file:///data/d''], [''file:///data/c'', ''file:///data/a''], [''file:///data/u''],
      [item_moved_data_new ''file:///data/n'' ''file:///data/m'']) \<and>
   queues (monitor_item_deleted_cb plain_env one_in_each_queue ''file:///data/a'' False) =
     ([''file:///data/d'', ''file:///data/a''], [''file:///data/c''], [''file:///data/u''],
      [item_moved_data_new ''file:///data/n'' ''file:///data/m''])"
proof -
  have h: "should_check_file plain_env ''file:///data/a'' False"
    by (simp add: should_check_file_def plain_env_def)
  show ?thesis
    using enqueue_appends[OF h, of one_in_each_queue] h
    by (simp add: one_in_each_queue_def tracker_miner_fs_init_def)
qed

subsection \<open>Locked files\<close>

lemma next_file_keeps:
  "processing_pool (snd (snd (snd (item_queue_get_next_file fs)))) = processing_pool fs"
  "process_file_emitted (snd (snd (snd (item_queue_get_next_file fs)))) = process_file_emitted fs"
  "batch_updates (snd (snd (snd (item_queue_get_next_file fs)))) = batch_updates fs"
  "item_queues_handler_id (snd (snd (snd (item_queue_get_next_file fs)))) =
     item_queues_handler_id fs"
  by (simp_all add: next_file_order)

lemma next_file_pending:
  "fst (snd (item_queue_get_next_file fs)) = Some f \<Longrightarrow>
   Suc (items_pending (snd (snd (snd (item_queue_get_next_file fs))))) = items_pending fs"
  by (auto simp: next_file_order items_pending_def split: if_splits)

text \<open>
  Claim C5, as stated, fails: a locked file taken from the Created queue is not pushed
  back. After the tick every queue is empty.
\<close>

theorem locked_item_counterexample:
  "map_option queues
     (run locked_env (tracker_miner_fs_init 1)
        [Started, ItemCreated ''file:///data/a'' False, QueueTick 5]) =
   Some ([], [], [], [])"
  by (simp add: queues_def monitor_item_created_cb_def should_check_file_def
        item_queue_handlers_set_up_def miner_started_def crawl_directories_start_def
        tracker_idle_add_def item_queue_handlers_cb_def item_queue_get_next_file_def
        locked_env_def plain_env_def tracker_miner_fs_init_def Let_def)

text \<open>
  Claim C5, amended. For every dequeued item whose file is locked at dispatch time, the
  item is dropped: the handler returns \<open>True\<close> (it stays installed) with the state the
  dequeue left, in which the queues hold one entry fewer; the pool is unchanged, no
  \<^verbatim>\<open>::process-file\<close> is emitted and no store update is submitted on that tick.
\<close>

theorem locked_item_dropped:
  assumes "fst (snd (item_queue_get_next_file fs)) = Some f"
    and "tracker_file_is_locked e f"
  shows "item_queue_handlers_cb e fs = Some (True, snd (snd (snd (item_queue_get_next_file fs))))
       \<and> Suc (items_pending (snd (snd (snd (item_queue_get_next_file fs))))) = items_pending fs
       \<and> processing_pool (snd (snd (snd (item_queue_get_next_file fs)))) = processing_pool fs
       \<and> process_file_emitted (snd (snd (snd (item_queue_get_next_file fs)))) =
           process_file_emitted fs
       \<and> batch_updates (snd (snd (snd (item_queue_get_next_file fs)))) = batch_updates fs
       \<and> item_queues_handler_id (snd (snd (snd (item_queue_get_next_file fs)))) =
           item_queues_handler_id fs"
proof -
  obtain q fo so fs1 where n: "item_queue_get_next_file fs = (q, fo, so, fs1)"
    by (metis prod_cases4)
  with assms have "item_queue_handlers_cb e fs = Some (True, fs1)"
    by (simp add: item_queue_handlers_cb_def)
  with n show ?thesis
    using next_file_keeps[of fs] next_file_pending[OF assms(1)] by simp
qed

theorem locked_item_dropped_witness:
  "fst (snd (item_queue_get_next_file one_in_each_queue)) = Some ''file:///data/d'' \<and>
   tracker_file_is_locked locked_env ''file:///data/d'' \<and>
   item_queue_handlers_cb locked_env one_in_each_queue =
     Some (True, one_in_each_queue\<lparr>items_deleted := []\<rparr>) \<and>
   items_pending (one_in_each_queue\<lparr>items_deleted := []\<rparr>) = 3 \<and>
   items_pending one_in_each_queue = 4"
proof -
  have h1: "fst (snd (item_queue_get_next_file one_in_each_queue)) = Some ''file:///data/d''"
    by (simp add: item_queue_get_next_file_def one_in_each_queue_def tracker_miner_fs_init_def)
  have h2: "tracker_file_is_locked locked_env ''file:///data/d''"
    by (simp add: locked_env_def)
  have n: "snd (snd (snd (item_queue_get_next_file one_in_each_queue))) =
           one_in_each_queue\<lparr>items_deleted := []\<rparr>"
    by (simp add: item_queue_get_next_file_def one_in_each_queue_def tracker_miner_fs_init_def)
  show ?thesis
    using locked_item_dropped[OF h1 h2] h1 h2 n
    by (simp add: items_pending_def one_in_each_queue_def tracker_miner_fs_init_def)
qed

subsection \<open>Created directories\<close>

lemma crawl_start_keeps:
  "queues (crawl_directories_start e fs) = queues fs"
  "directories (crawl_directories_start e fs) = directories fs"
  "current_directory (crawl_directories_start e fs) = current_directory fs"
  "crawler_calls (crawl_directories_start e fs) = crawler_calls fs"
  "been_started fs \<Longrightarrow> crawl_directories_id (crawl_directories_start e fs) \<noteq> None"
  "been_started fs \<Longrightarrow> crawl_directories_id fs = None \<Longrightarrow>
     crawl_directories_id (crawl_directories_start e fs) =
       Some (tracker_idle_add e fs crawl_directories_cb_func)"
  by (simp_all add: crawl_directories_start_def queues_def tracker_idle_add_def Let_def)

text \<open>
  Claim C10. A create event for a directory that passes the check leaves the four queues
  as they were, appends the directory with the recursive flag to the list of directories
  and calls the start of the crawl: once the controller has been started the crawl hook
  is installed, and when the hook runs with this directory first in the list it starts
  the crawler on it, recursively. The created handler adds to the Created queue only a
  file that is no directory and passes the check.
\<close>

theorem created_directory_is_crawled:
  assumes "check_directory e f"
  shows "queues (monitor_item_created_cb e fs f True) = queues fs
       \<and> directories (monitor_item_created_cb e fs f True) =
           directories fs @ [\<lparr>dd_file = f, dd_recurse = True\<rparr>]
       \<and> (been_started fs \<longrightarrow>
            crawl_directories_id (monitor_item_created_cb e fs f True) \<noteq> None)
       \<and> (been_started fs \<and> crawl_directories_id fs = None \<longrightarrow>
            crawl_directories_id (monitor_item_created_cb e fs f True) =
              Some (tracker_idle_add e fs crawl_directories_cb_func))
       \<and> (current_directory fs = None \<and> directories fs = [] \<longrightarrow>
            crawler_calls (snd (crawl_directories_cb e (monitor_item_created_cb e fs f True))) =
              crawler_calls fs @ [CrawlerStart f True])
       \<and> items_created (monitor_item_created_cb e fs g d) =
           (if \<not> d \<and> check_file e g then items_created fs @ [g] else items_created fs)"
proof -
  let ?fs1 = "fs\<lparr>directories := directories fs @ [directory_data_new f True]\<rparr>"
  have m: "monitor_item_created_cb e fs f True = crawl_directories_start e ?fs1"
    using assms
    by (simp add: monitor_item_created_cb_def should_check_file_def
          tracker_miner_fs_add_directory_def)
  have q: "queues (crawl_directories_start e ?fs1) = queues fs"
    by (simp add: crawl_start_keeps(1)) (simp add: queues_def)
  have i: "tracker_idle_add e (fs\<lparr>directories := ds\<rparr>) crawl_directories_cb_func =
           tracker_idle_add e fs crawl_directories_cb_func" for ds
    by (simp add: tracker_idle_add_def)
  have c: "current_directory fs = None \<Longrightarrow> directories fs = [] \<Longrightarrow>
           crawler_calls (snd (crawl_directories_cb e (crawl_directories_start e ?fs1))) =
             crawler_calls fs @ [CrawlerStart f True]"
    by (simp add: crawl_directories_cb_def crawl_start_keeps directory_data_new_def Let_def)
  have g: "queues (monitor_item_created_cb e fs g d) =
           (if \<not> d \<and> check_file e g
            then (items_deleted fs, items_created fs @ [g], items_updated fs, items_moved fs)
            else queues fs)"
    by (simp add: monitor_item_created_cb_def should_check_file_def
          tracker_miner_fs_add_directory_def crawl_start_keeps(1))
       (simp add: queues_def)
  have g': "items_created (monitor_item_created_cb e fs g d) =
           (if \<not> d \<and> check_file e g then items_created fs @ [g] else items_created fs)"
  proof (cases "\<not> d \<and> check_file e g")
    case True
    with g show ?thesis by (simp add: queues_def)
  next
    case False
    with g show ?thesis by (simp add: queues_def)
  qed
  show ?thesis
    using q c g' crawl_start_keeps(5,6)[of ?fs1 e]
    by (simp add: m crawl_start_keeps(2) i directory_data_new_def)
qed

theorem created_directory_is_crawled_witness:
  "check_directory plain_env ''file:///data/dir'' \<and>
   been_started ((tracker_miner_fs_init 1)\<lparr>been_started := True\<rparr>) \<and>
   items_created
     (monitor_item_created_cb plain_env ((tracker_miner_fs_init 1)\<lparr>been_started := True\<rparr>)
        ''file:///data/dir'' True) = [] \<and>
   directories
     (monitor_item_created_cb plain_env ((tracker_miner_fs_init 1)\<lparr>been_started := True\<rparr>)
        ''file:///data/dir'' True) = [\<lparr>dd_file = ''file:///data/dir'', dd_recurse = True\<rparr>] \<and>
   crawl_directories_id
     (monitor_item_created_cb plain_env ((tracker_miner_fs_init 1)\<lparr>been_started := True\<rparr>)
        ''file:///data/dir'' True) = Some (IdleSource crawl_directories_cb_func) \<and>
   crawler_calls
     (snd (crawl_directories_cb plain_env
        (monitor_item_created_cb plain_env ((tracker_miner_fs_init 1)\<lparr>been_started := True\<rparr>)
           ''file:///data/dir'' True))) = [CrawlerStart ''file:///data/dir'' True]"
proof -
  have h: "check_directory plain_env ''file:///data/dir''"
    by (simp add: plain_env_def)
  show ?thesis
    using created_directory_is_crawled[OF h,
            of "(tracker_miner_fs_init 1)\<lparr>been_started := True\<rparr>" "''file:///data/dir''" True] h
    by (simp add: queues_def tracker_miner_fs_init_def tracker_idle_add_def plain_env_def)
qed

subsection \<open>The throttle\<close>





subsection \<open>Progress\<close>












subsection \<open>Removing a directory\<close>

text \<open>
  Claim C4, as stated, fails. A delete event queued for a file of the directory is still
  in the Deleted queue after the removal; and a create event that arrives after the
  removal is queued and dispatched, so that \<^verbatim>\<open>::process-file\<close> is emitted for a file of
  the removed directory.
\<close>

theorem remove_directory_counterexample:
  "map_option items_deleted
     (run plain_env (tracker_miner_fs_init 1)
        [Started, ItemDeleted ''file:///data/a'' False, RemoveDirectory ''file:///data'']) =
     Some [''file:///data/a'']
   \<and> within_root ''file:///data/a'' ''file:///data''
   \<and> map_option process_file_emitted
     (run plain_env (tracker_miner_fs_init 1)
        [Started, RemoveDirectory ''file:///data'', ItemCreated ''file:///data/b'' False,
         QueueTick 5]) =
     Some [''file:///data/b'']
   \<and> within_root ''file:///data/b'' ''file:///data''"
  by (simp add: within_root_def g_file_equal_def g_file_has_prefix_def
        monitor_item_created_cb_def monitor_item_deleted_cb_def should_check_file_def
        item_queue_handlers_set_up_def miner_started_def crawl_directories_start_def
        tracker_miner_fs_remove_directory_def check_files_removal_def
        tracker_idle_add_def item_queue_handlers_cb_def item_queue_get_next_file_def
        item_add_or_update_def process_data_new_def process_data_find_def
        plain_env_def tracker_miner_fs_init_def Let_def)

text \<open>
  Claim C4, amended. After the removal of a directory, no entry within it remains in the
  Created queue or in the Updated queue, and the other entries of these two queues keep
  their order; the Deleted and the Moved queue are as before. The pool holds the same
  files in the same order, and every entry within the directory that has a cancel token
  has it tripped, the other entries being unchanged.
\<close>

theorem remove_directory_purges:
  "items_created (snd (tracker_miner_fs_remove_directory fs r)) =
     filter (\<lambda>f. \<not> within_root f r) (items_created fs)
   \<and> items_updated (snd (tracker_miner_fs_remove_directory fs r)) =
     filter (\<lambda>f. \<not> within_root f r) (items_updated fs)
   \<and> (\<forall>f \<in> set (items_created (snd (tracker_miner_fs_remove_directory fs r))) \<union>
            set (items_updated (snd (tracker_miner_fs_remove_directory fs r))).
        \<not> within_root f r)
   \<and> items_deleted (snd (tracker_miner_fs_remove_directory fs r)) = items_deleted fs
   \<and> items_moved (snd (tracker_miner_fs_remove_directory fs r)) = items_moved fs
   \<and> map pd_file (processing_pool (snd (tracker_miner_fs_remove_directory fs r))) =
     map pd_file (processing_pool fs)
   \<and> (\<forall>d \<in> set (processing_pool (snd (tracker_miner_fs_remove_directory fs r))).
        within_root (pd_file d) r \<longrightarrow> pd_cancellable d \<noteq> Some False)
   \<and> (\<forall>d \<in> set (processing_pool fs).
        \<not> within_root (pd_file d) r \<longrightarrow>
        d \<in> set (processing_pool (snd (tracker_miner_fs_remove_directory fs r))))"
proof -
  let ?cancel = "\<lambda>data. if within_root (pd_file data) r
                         then data\<lparr>pd_cancellable := g_cancellable_cancel (pd_cancellable data)\<rparr>
                         else data"
  have c: "items_created (snd (tracker_miner_fs_remove_directory fs r)) =
           filter (\<lambda>f. \<not> within_root f r) (items_created fs)"
    by (simp add: tracker_miner_fs_remove_directory_def check_files_removal_def
          within_root_def Let_def)
  have u: "items_updated (snd (tracker_miner_fs_remove_directory fs r)) =
           filter (\<lambda>f. \<not> within_root f r) (items_updated fs)"
    by (simp add: tracker_miner_fs_remove_directory_def check_files_removal_def
          within_root_def Let_def)
  have dm: "items_deleted (snd (tracker_miner_fs_remove_directory fs r)) = items_deleted fs"
      "items_moved (snd (tracker_miner_fs_remove_directory fs r)) = items_moved fs"
    by (simp_all add: tracker_miner_fs_remove_directory_def Let_def)
  have p: "processing_pool (snd (tracker_miner_fs_remove_directory fs r)) =
           map ?cancel (processing_pool fs)"
    by (simp add: tracker_miner_fs_remove_directory_def within_root_def Let_def)
  have pf: "map pd_file (map ?cancel (processing_pool fs)) = map pd_file (processing_pool fs)"
    by (induction "processing_pool fs") auto
  have pc: "\<forall>d \<in> set (map ?cancel (processing_pool fs)).
              within_root (pd_file d) r \<longrightarrow> pd_cancellable d \<noteq> Some False"
    by (auto simp: g_cancellable_cancel_def split: option.splits)
  have pk: "\<forall>d \<in> set (processing_pool fs).
              \<not> within_root (pd_file d) r \<longrightarrow> d \<in> set (map ?cancel (processing_pool fs))"
    by (auto simp: image_iff intro!: bexI)
  show ?thesis
    unfolding c u dm p using pf pc pk by auto
qed

theorem remove_directory_purges_witness:
  "items_created (snd (tracker_miner_fs_remove_directory mixed_roots ''file:///data'')) =
     [''file:///other/x'']
   \<and> items_updated (snd (tracker_miner_fs_remove_directory mixed_roots ''file:///data'')) =
     [''file:///database'']
   \<and> items_deleted (snd (tracker_miner_fs_remove_directory mixed_roots ''file:///data'')) =
     [''file:///data/c'']
   \<and> processing_pool (snd (tracker_miner_fs_remove_directory mixed_roots ''file:///data'')) =
     [process_data_new ''file:///data/e'' (Some True) (Some []),
      process_data_new ''file:///data/f'' None None,
      process_data_new ''file:///other/y'' (Some False) (Some [])]
   \<and> within_root ''file:///data/e'' ''file:///data''
   \<and> \<not> within_root ''file:///other/y'' ''file:///data''
   \<and> process_data_new ''file:///other/y'' (Some False) (Some []) \<in> set (processing_pool mixed_roots)"
proof -
  have p: "processing_pool (snd (tracker_miner_fs_remove_directory mixed_roots ''file:///data'')) =
     [process_data_new ''file:///data/e'' (Some True) (Some []),
      process_data_new ''file:///data/f'' None None,
      process_data_new ''file:///other/y'' (Some False) (Some [])]"
    by (simp add: tracker_miner_fs_remove_directory_def mixed_roots_def
          tracker_miner_fs_init_def process_data_new_def g_cancellable_cancel_def
          g_file_equal_def g_file_has_prefix_def Let_def)
  have w: "within_root ''file:///data/e'' ''file:///data''"
      "\<not> within_root ''file:///other/y'' ''file:///data''"
      "process_data_new ''file:///other/y'' (Some False) (Some []) \<in> set (processing_pool mixed_roots)"
    by (simp_all add: within_root_def g_file_equal_def g_file_has_prefix_def mixed_roots_def
          tracker_miner_fs_init_def)
  have q: "filter (\<lambda>f. \<not> within_root f ''file:///data'') (items_created mixed_roots) =
             [''file:///other/x'']"
      "filter (\<lambda>f. \<not> within_root f ''file:///data'') (items_updated mixed_roots) =
             [''file:///database'']"
      "items_deleted mixed_roots = [''file:///data/c'']"
    by (simp_all add: within_root_def g_file_equal_def g_file_has_prefix_def mixed_roots_def
          tracker_miner_fs_init_def)
  show ?thesis
    using remove_directory_purges[of mixed_roots "''file:///data''"] p w q
    by simp
qed

subsection \<open>The pool limit\<close>

lemma main_loop_leaf:
  assumes "query_children e src = Some []" and "level md = 1"
  shows "g_main_loop_run e (md, [src]) = Some (md\<lparr>level := 0\<rparr>)"
  using assms
  by (subst g_main_loop_run.simps) (simp add: item_update_uri_recursively_cb_def)

text \<open>
  The set-up of the handler, the dispatch of a created or updated file and the dispatch
  of a deleted file keep the pool below its limit while the handler stays installed.
\<close>

lemma set_up_gate:
  assumes "item_queues_handler_id fs = None"
    and "item_queues_handler_id (item_queue_handlers_set_up e fs) \<noteq> None"
  shows "length (processing_pool fs) < pool_limit fs"
  using assms
  by (auto simp: item_queue_handlers_set_up_def Let_def split: if_splits)

lemma add_or_update_gate:
  assumes "item_add_or_update e fs f = (True, fs')"
    and "length (processing_pool fs) < pool_limit fs"
  shows "length (processing_pool fs') < pool_limit fs'"
  using assms
  by (auto simp: item_add_or_update_def process_data_find_def g_file_equal_def
        process_data_new_def Let_def split: if_splits)

lemma remove_gate:
  assumes "item_remove e fs f = (True, fs')"
  shows "fs' = fs"
  using assms
  by (auto simp: item_remove_def Let_def split: if_splits)

text \<open>
  Claim C3 on the code. With a pool limit of 1, two move events whose sources are in the
  store are queued; the first run of the handler submits the first move, puts its entry
  into the pool and stays installed; the second run does the same for the second move.
  The pool then holds two entries. In the same way, after one move has been submitted
  a file created meanwhile is dispatched to the extractor although the pool is full.
\<close>

theorem pool_limit_exceeded_by_moves:
  "map_option processing_pool
     (run stored_env (tracker_miner_fs_init 1)
        [Started, ItemMoved ''file:///data/a'' ''file:///data/b'' False True,
         ItemMoved ''file:///data/c'' ''file:///data/d'' False True,
         QueueTick 5, QueueTick 6]) =
     Some [process_data_new ''file:///data/d'' None None,
           process_data_new ''file:///data/b'' None None]
   \<and> map_option pool_limit
     (run stored_env (tracker_miner_fs_init 1)
        [Started, ItemMoved ''file:///data/a'' ''file:///data/b'' False True,
         ItemMoved ''file:///data/c'' ''file:///data/d'' False True,
         QueueTick 5, QueueTick 6]) = Some 1
   \<and> map_option item_queues_handler_id
     (run stored_env (tracker_miner_fs_init 1)
        [Started, ItemMoved ''file:///data/a'' ''file:///data/b'' False True,
         ItemMoved ''file:///data/c'' ''file:///data/d'' False True,
         QueueTick 5]) = Some (Some (IdleSource item_queue_handlers_cb_func))
   \<and> map_option processing_pool
     (run stored_env (tracker_miner_fs_init 1)
        [Started, ItemMoved ''file:///data/a'' ''file:///data/b'' False True, QueueTick 5,
         ItemCreated ''file:///data/c'' False, QueueTick 6]) =
     Some [process_data_new ''file:///data/c'' (Some False) (Some []),
           process_data_new ''file:///data/b'' None None]
   \<and> map_option process_file_emitted
     (run stored_env (tracker_miner_fs_init 1)
        [Started, ItemMoved ''file:///data/a'' ''file:///data/b'' False True, QueueTick 5,
         ItemCreated ''file:///data/c'' False, QueueTick 6]) = Some [''file:///data/c'']"
  by (simp add: monitor_item_moved_cb_def should_check_file_def item_moved_data_new_def
        monitor_item_created_cb_def item_add_or_update_def process_data_new_def
        process_data_find_def g_file_equal_def
        item_queue_handlers_set_up_def miner_started_def crawl_directories_start_def
        tracker_idle_add_def item_queue_handlers_cb_def item_queue_get_next_file_def
        item_move_def item_query_exists_def g_file_get_uri_def
        item_update_uri_recursively_def main_loop_leaf
        stored_env_def plain_env_def tracker_miner_fs_init_def Let_def)

subsection \<open>One run of the handler, step by step\<close>

lemma timer_set: "(if \<not> timer fs then fs\<lparr>timer := True\<rparr> else fs) = fs\<lparr>timer := True\<rparr>"
  by (cases "timer fs") simp_all

lemma report_set:
  "(if c then fs\<lparr>time_last := a, progress := b\<rparr> else fs) =
   fs\<lparr>time_last := (if c then a else time_last fs), progress := (if c then b else progress fs)\<rparr>"
  by (cases c) simp_all

lemma progress_timer: "item_queue_get_progress (fs\<lparr>timer := t\<rparr>) = item_queue_get_progress fs"
  by (simp add: item_queue_get_progress_def)

lemma handler_unlocked:
  assumes "item_queue_get_next_file fs = (q, Some f, so, fs1)"
    and "\<not> tracker_file_is_locked e f"
  shows "item_queue_handlers_cb e fs =
     (case (case (q, so) of
              (QUEUE_MOVED, Some s) \<Rightarrow>
                 item_move e
                   (fs1\<lparr>timer := True,
                        time_last := (if 1 \<le> current_time e - time_last fs1
                                      then current_time e else time_last fs1),
                        progress := (if 1 \<le> current_time e - time_last fs1
                                     then item_queue_get_progress fs1 else progress fs1)\<rparr>) f s
            | (QUEUE_DELETED, _) \<Rightarrow>
                 Some (item_remove e
                   (fs1\<lparr>timer := True,
                        time_last := (if 1 \<le> current_time e - time_last fs1
                                      then current_time e else time_last fs1),
                        progress := (if 1 \<le> current_time e - time_last fs1
                                     then item_queue_get_progress fs1 else progress fs1)\<rparr>) f)
            | (QUEUE_CREATED, _) \<Rightarrow>
                 Some (item_add_or_update e
                   (fs1\<lparr>timer := True,
                        time_last := (if 1 \<le> current_time e - time_last fs1
                                      then current_time e else time_last fs1),
                        progress := (if 1 \<le> current_time e - time_last fs1
                                     then item_queue_get_progress fs1 else progress fs1)\<rparr>) f)
            | (QUEUE_UPDATED, _) \<Rightarrow>
                 Some (item_add_or_update e
                   (fs1\<lparr>timer := True,
                        time_last := (if 1 \<le> current_time e - time_last fs1
                                      then current_time e else time_last fs1),
                        progress := (if 1 \<le> current_time e - time_last fs1
                                     then item_queue_get_progress fs1 else progress fs1)\<rparr>) f)
            | _ \<Rightarrow> None) of
        None \<Rightarrow> None
      | Some (keep_processing, fs3) \<Rightarrow>
          if \<not> keep_processing then Some (False, fs3\<lparr>item_queues_handler_id := None\<rparr>)
          else Some (True, fs3))"
proof -
  have "q \<noteq> QUEUE_NONE"
    using assms(1) by (auto simp: next_file_order split: if_splits)
  with assms show ?thesis
    by (simp add: item_queue_handlers_cb_def Let_def timer_set report_set progress_timer
           split: queue.splits option.splits)
qed


lemma handler_deleted_absent:
  assumes "controller_view fs = ((u # ds, cq, uq, mq), pool, pl, paused, inst, em, bu)"
    and "\<not> tracker_file_is_locked e u" and "\<not> query_exists e u"
  shows "\<exists>s. item_queue_handlers_cb e fs = Some (True, s) \<and>
             controller_view s = ((ds, cq, uq, mq), pool, pl, paused, inst, em, bu)"
proof -
  have n: "item_queue_get_next_file fs = (QUEUE_DELETED, Some u, None, fs\<lparr>items_deleted := ds\<rparr>)"
    using assms(1) by (simp add: item_queue_get_next_file_def controller_view_def queues_def)
  show ?thesis
    using assms(1,3)
    by (simp add: handler_unlocked[OF n assms(2)] item_remove_def item_query_exists_def
          controller_view_def queues_def)
qed

lemma handler_deleted_stored:
  assumes "controller_view fs = ((u # ds, cq, uq, mq), pool, pl, paused, inst, em, bu)"
    and "\<not> tracker_file_is_locked e u" and "query_exists e u"
  shows "\<exists>s. item_queue_handlers_cb e fs = Some (False, s) \<and>
             controller_view s =
               ((ds, cq, uq, mq), process_data_new u None None # pool, pl, paused, False, em,
                bu @ [process_data_new u None None])"
proof -
  have n: "item_queue_get_next_file fs = (QUEUE_DELETED, Some u, None, fs\<lparr>items_deleted := ds\<rparr>)"
    using assms(1) by (simp add: item_queue_get_next_file_def controller_view_def queues_def)
  show ?thesis
    using assms(1,3)
    by (simp add: handler_unlocked[OF n assms(2)] item_remove_def item_query_exists_def
          controller_view_def queues_def Let_def)
qed

lemma handler_created:
  assumes "controller_view fs = (([], u # cq, uq, mq), pool, pl, paused, inst, em, bu)"
    and "\<not> tracker_file_is_locked e u"
  shows "\<exists>r s. item_queue_handlers_cb e fs = Some (r, s) \<and>
             controller_view s =
               (([], cq, uq, mq),
                (if process_file e u then process_data_new u (Some False) (Some []) # pool
                 else pool),
                pl, paused, inst \<and> r, em @ [u], bu) \<and>
             r = (process_file e u \<longrightarrow> Suc (length pool) < pl)"
proof -
  have n: "item_queue_get_next_file fs = (QUEUE_CREATED, Some u, None, fs\<lparr>items_created := cq\<rparr>)"
    using assms(1) by (simp add: item_queue_get_next_file_def controller_view_def queues_def)
  show ?thesis
    using assms(1)
    by (auto simp add: handler_unlocked[OF n assms(2)] item_add_or_update_def Let_def
          process_data_find_def g_file_equal_def process_data_new_def
          controller_view_def queues_def)
qed

lemma created_event:
  assumes "controller_view fs = ((dq, cq, uq, mq), pool, pl, paused, inst, em, bu)"
    and "check_file e u"
  shows "controller_view (monitor_item_created_cb e fs u False) =
           ((dq, cq @ [u], uq, mq), pool, pl, paused,
            inst \<or> (\<not> paused \<and> length pool < pl), em, bu)"
  using assms
  by (auto simp: monitor_item_created_cb_def should_check_file_def
        item_queue_handlers_set_up_def controller_view_def queues_def Let_def)

lemma deleted_event:
  assumes "controller_view fs = ((dq, cq, uq, mq), pool, pl, paused, inst, em, bu)"
    and "should_check_file e u d"
  shows "controller_view (monitor_item_deleted_cb e fs u d) =
           ((dq @ [u], cq, uq, mq), pool, pl, paused,
            inst \<or> (\<not> paused \<and> length pool < pl), em, bu)"
  using assms
  by (auto simp: monitor_item_deleted_cb_def
        item_queue_handlers_set_up_def controller_view_def queues_def Let_def)

lemma update_done:
  assumes "controller_view fs = (qs, d # pool, pl, paused, inst, em, bu)"
  shows "controller_view (sparql_update_cb e fs d) =
           (qs, pool, pl, paused, inst \<or> (\<not> paused \<and> length pool < pl), em, bu)"
  using assms
  by (auto simp: sparql_update_cb_def
        item_queue_handlers_set_up_def controller_view_def queues_def Let_def)

lemma run_tick:
  assumes "item_queues_handler_id fs \<noteq> None"
    and "item_queue_handlers_cb (e\<lparr>current_time := t\<rparr>) fs = Some (r, s)"
  shows "run e fs (QueueTick t # evs) = run e s evs"
proof -
  have "fire e fs (QueueTick t) = Some s"
    using assms by auto
  then show ?thesis by simp
qed

lemma run_update_done:
  assumes "d \<in> set (processing_pool fs)" and "d \<in> snd ` set (batch_updates fs)"
  shows "run e fs (UpdateDone d # evs) = run e (sparql_update_cb e fs d) evs"
proof -
  have "fire e fs (UpdateDone d) = Some (sparql_update_cb e fs d)"
    using assms by simp
  then show ?thesis by simp
qed

subsection \<open>A create event followed by a delete event\<close>

text \<open>
  Claim C8, as stated, fails: after a create event and a delete event for the same file
  and two runs of the handler, the queues are empty and \<^verbatim>\<open>::process-file\<close> has been
  emitted for the file.
\<close>

theorem created_then_deleted_counterexample:
  "map_option process_file_emitted
     (run plain_env (tracker_miner_fs_init 1)
        [Started, ItemCreated ''file:///data/a'' False, ItemDeleted ''file:///data/a'' False,
         QueueTick 5, QueueTick 6]) = Some [''file:///data/a'']
   \<and> map_option queues
     (run plain_env (tracker_miner_fs_init 1)
        [Started, ItemCreated ''file:///data/a'' False, ItemDeleted ''file:///data/a'' False,
         QueueTick 5, QueueTick 6]) = Some ([], [], [], [])"
  by (simp add: queues_def monitor_item_created_cb_def monitor_item_deleted_cb_def
        should_check_file_def
        item_queue_handlers_set_up_def miner_started_def crawl_directories_start_def
        tracker_idle_add_def item_queue_handlers_cb_def item_queue_get_next_file_def
        item_remove_def item_query_exists_def
        item_add_or_update_def process_data_new_def process_data_find_def
        plain_env_def tracker_miner_fs_init_def Let_def)

text \<open>
  Claim C8, amended. Let the queues and the pool be empty, the controller not paused and
  the pool limit positive, and let a file pass the check and not be locked. A create
  event and then a delete event for the file leave it in the Created queue and in the
  Deleted queue. As the queues drain, the first run of the handler takes the Deleted
  entry (and submits a store delete when the store knows the file, after whose completion
  the handler is installed again), and the next run dispatches the Created entry:
  \<^verbatim>\<open>::process-file\<close> is emitted for the file, once, and the four queues end empty.
\<close>

theorem created_then_deleted:
  assumes "queues fs = ([], [], [], [])" and "processing_pool fs = []"
    and "0 < pool_limit fs" and "\<not> is_paused fs"
    and "check_file e u" and "\<not> tracker_file_is_locked e u"
  shows "queues (monitor_item_deleted_cb e (monitor_item_created_cb e fs u False) u False) =
           ([u], [u], [], [])
       \<and> (\<not> query_exists e u \<longrightarrow>
            map_option queues
              (run e fs [ItemCreated u False, ItemDeleted u False, QueueTick t1, QueueTick t2]) =
              Some ([], [], [], []) \<and>
            map_option process_file_emitted
              (run e fs [ItemCreated u False, ItemDeleted u False, QueueTick t1, QueueTick t2]) =
              Some (process_file_emitted fs @ [u]))
       \<and> (query_exists e u \<longrightarrow>
            map_option queues
              (run e fs [ItemCreated u False, ItemDeleted u False, QueueTick t1,
                         UpdateDone (process_data_new u None None), QueueTick t2]) =
              Some ([], [], [], []) \<and>
            map_option process_file_emitted
              (run e fs [ItemCreated u False, ItemDeleted u False, QueueTick t1,
                         UpdateDone (process_data_new u None None), QueueTick t2]) =
              Some (process_file_emitted fs @ [u]))"
proof -
  let ?e1 = "e\<lparr>current_time := t1\<rparr>" and ?e2 = "e\<lparr>current_time := t2\<rparr>"
  let ?d = "process_data_new u None None"
  define s1 where "s1 = monitor_item_created_cb e fs u False"
  define s2 where "s2 = monitor_item_deleted_cb e s1 u False"
  obtain inst where v0: "controller_view fs =
      (([], [], [], []), [], pool_limit fs, False, inst, process_file_emitted fs,
       map snd (batch_updates fs))"
    using assms(1,2,4) by (simp add: controller_view_def)
  have v1: "controller_view s1 =
      (([], [u], [], []), [], pool_limit fs, False, True, process_file_emitted fs,
       map snd (batch_updates fs))"
    unfolding s1_def using created_event[OF v0 assms(5)] assms(3) by simp
  have ck: "should_check_file e u False"
    using assms(5) by (simp add: should_check_file_def)
  have v2: "controller_view s2 =
      (([u], [u], [], []), [], pool_limit fs, False, True, process_file_emitted fs,
       map snd (batch_updates fs))"
    unfolding s2_def using deleted_event[OF v1 ck] by simp
  have q2: "queues s2 = ([u], [u], [], [])"
    using v2 by (simp add: controller_view_def)
  have h2: "item_queues_handler_id s2 \<noteq> None"
    using v2 by (simp add: controller_view_def)
  have l: "\<not> tracker_file_is_locked ?e1 u" "\<not> tracker_file_is_locked ?e2 u"
    using assms(6) by simp_all
  have r2: "run e fs (ItemCreated u False # ItemDeleted u False # evs) = run e s2 evs" for evs
    by (simp add: s1_def s2_def)
  have last: "\<exists>s. run e s3 [QueueTick t2] = Some s \<and> queues s = ([], [], [], []) \<and>
                  process_file_emitted s = process_file_emitted fs @ [u]"
    if v3: "controller_view s3 =
          (([], [u], [], []), [], pool_limit fs, False, True, process_file_emitted fs, bu)"
    for s3 bu
  proof -
    obtain r s where "item_queue_handlers_cb ?e2 s3 = Some (r, s)"
        "queues s = ([], [], [], [])" "process_file_emitted s = process_file_emitted fs @ [u]"
      using handler_created[OF v3 l(2)] by (auto simp: controller_view_def)
    moreover have "item_queues_handler_id s3 \<noteq> None"
      using v3 by (simp add: controller_view_def)
    ultimately show ?thesis using run_tick[where fs=s3 and e=e and t=t2 and evs="[]"] by simp
  qed
  have a: "\<exists>s. run e fs [ItemCreated u False, ItemDeleted u False, QueueTick t1, QueueTick t2] =
                  Some s \<and> queues s = ([], [], [], []) \<and>
                process_file_emitted s = process_file_emitted fs @ [u]"
    if ne: "\<not> query_exists e u"
  proof -
    have "\<not> query_exists ?e1 u" using ne by simp
    from handler_deleted_absent[OF v2 l(1) this]
    obtain s3 where s3: "item_queue_handlers_cb ?e1 s2 = Some (True, s3)"
        "controller_view s3 =
          (([], [u], [], []), [], pool_limit fs, False, True, process_file_emitted fs,
           map snd (batch_updates fs))"
      by blast
    have "run e s2 [QueueTick t1, QueueTick t2] = run e s3 [QueueTick t2]"
      using s3(1) h2 by (rule run_tick[rotated])
    with last[OF s3(2)] show ?thesis by (simp only: r2)
  qed
  have b: "\<exists>s. run e fs [ItemCreated u False, ItemDeleted u False, QueueTick t1,
                          UpdateDone ?d, QueueTick t2] =
                  Some s \<and> queues s = ([], [], [], []) \<and>
                process_file_emitted s = process_file_emitted fs @ [u]"
    if ex: "query_exists e u"
  proof -
    have "query_exists ?e1 u" using ex by simp
    from handler_deleted_stored[OF v2 l(1) this]
    obtain s3 where s3: "item_queue_handlers_cb ?e1 s2 = Some (False, s3)"
        "controller_view s3 =
          (([], [u], [], []), [?d], pool_limit fs, False, False, process_file_emitted fs,
           map snd (batch_updates fs) @ [?d])"
      by blast
    have en: "?d \<in> set (processing_pool s3)" "?d \<in> snd ` set (batch_updates s3)"
    proof -
      from s3(2) have p: "processing_pool s3 = [?d]"
          and m: "map snd (batch_updates s3) = map snd (batch_updates fs) @ [?d]"
        by (simp_all add: controller_view_def)
      show "?d \<in> set (processing_pool s3)" using p by simp
      have "?d \<in> set (map snd (batch_updates s3))" unfolding m by simp
      then show "?d \<in> snd ` set (batch_updates s3)" by simp
    qed
    define s4 where "s4 = sparql_update_cb e s3 ?d"
    have v4: "controller_view s4 =
          (([], [u], [], []), [], pool_limit fs, False, True, process_file_emitted fs,
           map snd (batch_updates fs) @ [?d])"
      unfolding s4_def using update_done[OF s3(2), of e] assms(3) by simp
    have "run e s2 [QueueTick t1, UpdateDone ?d, QueueTick t2] =
          run e s3 [UpdateDone ?d, QueueTick t2]"
      using s3(1) h2 by (rule run_tick[rotated])
    also have "\<dots> = run e s4 [QueueTick t2]"
      unfolding s4_def using en by (rule run_update_done)
    finally have "run e s2 [QueueTick t1, UpdateDone ?d, QueueTick t2] = run e s4 [QueueTick t2]" .
    with last[OF v4] show ?thesis by (simp only: r2)
  qed
  show ?thesis
    using a b q2 unfolding s2_def s1_def by (auto simp del: run.simps)
qed

theorem created_then_deleted_witness:
  "queues (tracker_miner_fs_init 1) = ([], [], [], []) \<and>
   processing_pool (tracker_miner_fs_init 1) = [] \<and> 0 < pool_limit (tracker_miner_fs_init 1) \<and>
   \<not> is_paused (tracker_miner_fs_init 1) \<and> check_file stored_env ''file:///data/a'' \<and>
   \<not> tracker_file_is_locked stored_env ''file:///data/a'' \<and>
   query_exists stored_env ''file:///data/a'' \<and>
   map_option process_file_emitted
     (run stored_env (tracker_miner_fs_init 1)
        [ItemCreated ''file:///data/a'' False, ItemDeleted ''file:///data/a'' False,
         QueueTick 5, UpdateDone (process_data_new ''file:///data/a'' None None),
         QueueTick 6]) = Some [''file:///data/a'']"
proof -
  have h: "queues (tracker_miner_fs_init 1) = ([], [], [], [])"
      "processing_pool (tracker_miner_fs_init 1) = []" "0 < pool_limit (tracker_miner_fs_init 1)"
      "\<not> is_paused (tracker_miner_fs_init 1)" "check_file stored_env ''file:///data/a''"
      "\<not> tracker_file_is_locked stored_env ''file:///data/a''"
    by (simp_all add: queues_def tracker_miner_fs_init_def stored_env_def plain_env_def)
  have x: "query_exists stored_env ''file:///data/a''"
    by (simp add: stored_env_def)
  have p: "process_file_emitted (tracker_miner_fs_init 1) = []"
    by (simp add: tracker_miner_fs_init_def)
  show ?thesis
    using created_then_deleted[OF h, of 5 6] h x p by simp
qed

subsection \<open>The recursive rewrite of a move\<close>










text \<open>
  Outside such a tree the callback adds nothing: a failed lookup, and a listed URI that
  does not start with the URI of the moved resource, leave the batch and the outstanding
  lookups as they are.
\<close>

lemma cb_failed_lookup:
  "item_update_uri_recursively_cb (md, pend) None = (md\<lparr>level := level md - 1\<rparr>, pend)"
  by (simp add: item_update_uri_recursively_cb_def)

lemma cb_foreign_child:
  "\<not> g_str_has_prefix c (source_uri md) \<Longrightarrow>
   item_update_uri_recursively_cb (md, pend) (Some [c]) = (md\<lparr>level := level md - 1\<rparr>, pend)"
  by (simp add: item_update_uri_recursively_cb_def)




subsection \<open>Processing a move\<close>









end
